theory Spec2Isabelle
  imports Complex_Main "HOL-Library.Word"
begin

section \<open>Python values\<close>

text \<open>
  A Python \<open>str\<close> is a sequence of Unicode code points and \<open>len\<close> counts code points, so
  a string is a list of code points here. The Cyrillic literals of the source are written
  out code point by code point; \<open>asc\<close> embeds an ASCII literal. \<open>bytes\<close> is a list of
  octets. A Python \<open>float\<close> is modelled by the real number it denotes (no rounding, no NaN).
\<close>

type_synonym ustr = "nat list"
type_synonym bytes = "8 word list"
type_synonym vec = "real list"

definition asc :: "string \<Rightarrow> ustr" where
  "asc s = map of_char s"

text \<open>
  Exceptions: \<open>asyncio.TimeoutError\<close> is the only class a handler of the source tells
  apart; every other exception is \<open>Error m\<close> with \<open>str(e) = m\<close>.
\<close>

datatype exn = TimeoutError | Error ustr

fun str_of :: "exn \<Rightarrow> ustr" where
  "str_of TimeoutError = []"
| "str_of (Error m) = m"

text \<open>\<open>str.isspace\<close> of one code point (the code points Python 3 treats as whitespace).\<close>

definition isspace :: "nat \<Rightarrow> bool" where
  "isspace c \<longleftrightarrow>
     (9 \<le> c \<and> c \<le> 13) \<or> (28 \<le> c \<and> c \<le> 32) \<or> c = 133 \<or> c = 160 \<or> c = 5760 \<or>
     (8192 \<le> c \<and> c \<le> 8202) \<or> c = 8232 \<or> c = 8233 \<or> c = 8239 \<or> c = 8287 \<or> c = 12288"

text \<open>\<open>s.strip()\<close>: leading and trailing whitespace removed, the inside untouched.\<close>

definition strip :: "ustr \<Rightarrow> ustr" where
  "strip s = rev (dropWhile isspace (rev (dropWhile isspace s)))"

text \<open>\<open>sep.join(parts)\<close>.\<close>

fun join :: "ustr \<Rightarrow> ustr list \<Rightarrow> ustr" where
  "join sep [] = []"
| "join sep [x] = x"
| "join sep (x # y # ys) = x @ sep @ join sep (y # ys)"


text \<open>\<open>enumerate(xs)\<close> as a list of pairs.\<close>

definition enumerate_py :: "'a list \<Rightarrow> (nat \<times> 'a) list" where
  "enumerate_py xs = zip [0..<length xs] xs"

text \<open>The literals of the source that are not ASCII, code point by code point.\<close>

definition msg_already_uploaded :: ustr where
  "msg_already_uploaded =
     [1069, 1090, 1086, 1090, 32, 1076, 1086, 1082, 1091, 1084, 1077, 1085, 1090, 32, 1091,
      1078, 1077, 32, 1079, 1072, 1075, 1088, 1091, 1078, 1077, 1085]"

definition msg_pdf_unreadable :: ustr where
  "msg_pdf_unreadable =
     [1053, 1077, 32, 1091, 1076, 1072, 1083, 1086, 1089, 1100, 32, 1080, 1079, 1074, 1083,
      1077, 1095, 1100, 32, 1090, 1077, 1082, 1089, 1090, 32, 1080, 1079, 32, 80, 68, 70, 32,
      40, 1092, 1072, 1081, 1083, 32, 1087, 1091, 1089, 1090, 1086, 1081, 32, 1080, 1083,
      1080, 32, 1079, 1072, 1097, 1080, 1097, 1105, 1085, 41]"

definition msg_text_unreadable :: ustr where
  "msg_text_unreadable =
     [1053, 1077, 32, 1091, 1076, 1072, 1083, 1086, 1089, 1100, 32, 1087, 1088, 1086, 1095,
      1080, 1090, 1072, 1090, 1100, 32, 1090, 1077, 1082, 1089, 1090, 32, 1080, 1079, 32,
      1092, 1072, 1081, 1083, 1072]"

definition msg_docx_unreadable :: ustr where
  "msg_docx_unreadable =
     [1053, 1077, 32, 1091, 1076, 1072, 1083, 1086, 1089, 1100, 32, 1080, 1079, 1074, 1083,
      1077, 1095, 1100, 32, 1090, 1077, 1082, 1089, 1090, 32, 1080, 1079, 32, 68, 79, 67, 88,
      32, 40, 1092, 1072, 1081, 1083, 32, 1087, 1091, 1089, 1090, 1086, 1081, 32, 1080, 1083,
      1080, 32, 1087, 1086, 1074, 1088, 1077, 1078, 1076, 1105, 1085, 41]"

definition msg_split_failed :: ustr where
  "msg_split_failed =
     [1053, 1077, 32, 1091, 1076, 1072, 1083, 1086, 1089, 1100, 32, 1088, 1072, 1079, 1073,
      1080, 1090, 1100, 32, 1076, 1086, 1082, 1091, 1084, 1077, 1085, 1090, 32, 1085, 1072,
      32, 1095, 1072, 1089, 1090, 1080]"

definition msg_unsupported :: "ustr \<Rightarrow> ustr" where
  "msg_unsupported ext =
     [1053, 1077, 1087, 1086, 1076, 1076, 1077, 1088, 1078, 1080, 1074, 1072, 1077, 1084,
      1099, 1081, 32, 1092, 1086, 1088, 1084, 1072, 1090, 32, 1092, 1072, 1081, 1083, 1072,
      58, 32, 46] @ ext @
     [46, 32, 1048, 1089, 1087, 1086, 1083, 1100, 1079, 1091, 1081, 1090, 1077, 32, 80, 68,
      70, 44, 32, 84, 88, 84, 44, 32, 77, 68, 32, 1080, 1083, 1080, 32, 68, 79, 67, 88, 46]"

section \<open>The knowledge store (rag\_database.py)\<close>

record document_row =
  doc_id :: nat
  doc_filename :: ustr
  doc_file_hash :: ustr
  doc_uploaded_by :: int
  doc_total_chunks :: nat

record chunk_metadata =
  meta_filename :: ustr
  meta_chunk_index :: nat
  meta_total_chunks :: nat
  meta_uploaded_by :: int

record chunk_row =
  chunk_id :: nat
  chunk_document_id :: nat
  chunk_index :: nat
  chunk_content :: ustr
  chunk_embedding :: vec
  chunk_metadata :: chunk_metadata

record usage_row =
  usage_id :: nat
  usage_user_id :: int
  usage_query :: ustr
  usage_chunks_used :: nat
  usage_response_time_ms :: int

record search_hit =
  hit_id :: nat
  hit_content :: ustr
  hit_metadata :: chunk_metadata
  hit_filename :: ustr
  hit_similarity :: real

record chat_message =
  msg_role :: ustr
  msg_content :: "ustr option"

record chat_response =
  choices :: "ustr option list"
  usage_total_tokens :: "nat option"

datatype embed_input = Single ustr | Batch "ustr list"

text \<open>
  The state the program acts on: the three tables with their \<open>SERIAL\<close> sequences, and a
  record of every call that left the process (statements sent to the store, requests to
  the embedding provider and to the chat provider, text extractions, splitter runs,
  clock readings, connection attempts and sleeps). The k-th call of a kind is answered
  by the environment's k-th answer, so two calls with the same arguments may differ.
\<close>

record world =
  rag_documents :: "document_row list"
  rag_chunks :: "chunk_row list"
  rag_usage_stats :: "usage_row list"
  documents_seq :: nat
  chunks_seq :: nat
  usage_seq :: nat
  db_ops :: nat
  embed_log :: "embed_input list"
  chat_log :: "chat_message list list"
  extract_calls :: nat
  split_calls :: nat
  clock_reads :: nat
  connect_attempts :: nat
  sleeps :: "nat list"
  pool_open :: bool
  engine_ready :: bool

text \<open>
  What the program does not define itself: the libraries and services it calls.
  \<open>store_fault k = Some m\<close>: the k-th statement sent to the store raises an exception
  whose text is \<open>m\<close> (connection lost, value out of range, ...); the \<open>UNIQUE\<close> constraint
  on \<open>file_hash\<close> is modelled in \<open>add_document\<close> itself.
\<close>

record env =
  md5_hexdigest :: "bytes \<Rightarrow> ustr"
  store_fault :: "nat \<Rightarrow> ustr option"
  unique_violation_text :: ustr
  connect_fault :: "nat \<Rightarrow> ustr option"
  embeddings_create :: "nat \<Rightarrow> embed_input \<Rightarrow> exn + vec list"
  chat_completions_create :: "nat \<Rightarrow> chat_message list \<Rightarrow> exn + chat_response"
  decode_utf8 :: "bytes \<Rightarrow> ustr option"
  decode_cp1251 :: "bytes \<Rightarrow> ustr option"
  pdf_pages :: "bytes \<Rightarrow> exn + ustr list"
  docx_parts :: "bytes \<Rightarrow> exn + (ustr list \<times> ustr list list list)"
  split_text :: "ustr \<Rightarrow> ustr list"
  lower :: "ustr \<Rightarrow> ustr"
  cosine_distance :: "vec \<Rightarrow> vec \<Rightarrow> real"
  format_2f :: "real \<Rightarrow> ustr"
  str_nat :: "nat \<Rightarrow> ustr"
  now_us :: "nat \<Rightarrow> int"

text \<open>One statement sent to the store: it is counted, and it may fail.\<close>

definition store_stmt :: "env \<Rightarrow> world \<Rightarrow> ustr option \<times> world" where
  "store_stmt e w = (store_fault e (db_ops w), w\<lparr>db_ops := Suc (db_ops w)\<rparr>)"

text \<open>\<open>SELECT id FROM rag_documents WHERE file_hash = $1\<close> through \<open>fetchval\<close>.\<close>

definition select_id_by_hash :: "env \<Rightarrow> ustr \<Rightarrow> world \<Rightarrow> (exn + nat option) \<times> world" where
  "select_id_by_hash e h w =
     (case store_stmt e w of
        (Some m, w1) \<Rightarrow> (Inl (Error m), w1)
      | (None, w1) \<Rightarrow>
          (Inr (case filter (\<lambda>d. doc_file_hash d = h) (rag_documents w1) of
                  [] \<Rightarrow> None | d # _ \<Rightarrow> Some (doc_id d)), w1))"

definition add_document :: "env \<Rightarrow> ustr \<Rightarrow> ustr \<Rightarrow> int \<Rightarrow> world \<Rightarrow> (exn + nat) \<times> world" where
  "add_document e filename file_hash user_id w =
     (case store_stmt e w of
        (Some m, w1) \<Rightarrow> (Inl (Error m), w1)
      | (None, w1) \<Rightarrow>
          (let new_id = Suc (documents_seq w1);
               w2 = w1\<lparr>documents_seq := new_id\<rparr>
           in if file_hash \<in> set (map doc_file_hash (rag_documents w2))
              then (Inl (Error (unique_violation_text e)), w2)
              else (Inr new_id,
                    w2\<lparr>rag_documents := rag_documents w2 @
                         [\<lparr>doc_id = new_id, doc_filename = filename, doc_file_hash = file_hash,
                           doc_uploaded_by = user_id, doc_total_chunks = 0\<rparr>]\<rparr>)))"

definition add_chunk ::
  "env \<Rightarrow> nat \<Rightarrow> nat \<Rightarrow> ustr \<Rightarrow> vec \<Rightarrow> chunk_metadata \<Rightarrow> world \<Rightarrow> (exn + unit) \<times> world" where
  "add_chunk e document_id idx content embedding metadata w =
     (case store_stmt e w of
        (Some m, w1) \<Rightarrow> (Inl (Error m), w1)
      | (None, w1) \<Rightarrow>
          (let new_id = Suc (chunks_seq w1)
           in (Inr (),
               w1\<lparr>chunks_seq := new_id,
                  rag_chunks := rag_chunks w1 @
                    [\<lparr>chunk_id = new_id, chunk_document_id = document_id, chunk_index = idx,
                      chunk_content = content, chunk_embedding = embedding,
                      chunk_metadata = metadata\<rparr>]\<rparr>)))"

text \<open>\<open>UPDATE rag_documents SET total_chunks = $1 WHERE id = $2\<close>.\<close>

definition update_total_chunks :: "env \<Rightarrow> nat \<Rightarrow> nat \<Rightarrow> world \<Rightarrow> (exn + unit) \<times> world" where
  "update_total_chunks e n document_id w =
     (case store_stmt e w of
        (Some m, w1) \<Rightarrow> (Inl (Error m), w1)
      | (None, w1) \<Rightarrow>
          (Inr (),
           w1\<lparr>rag_documents :=
                map (\<lambda>d. if doc_id d = document_id then d\<lparr>doc_total_chunks := n\<rparr> else d)
                    (rag_documents w1)\<rparr>))"





section \<open>The embedding service (embedding\_service.py)\<close>

definition truncate_input :: "ustr \<Rightarrow> ustr" where
  "truncate_input t = (if length t > 8000 then take 8000 t else t)"

text \<open>
  What \<open>create_embedding\<close> returns when its request is the k-th one: the body of the
  \<open>try\<close>, with every exception (the provider's, or the \<open>IndexError\<close> of \<open>data[0]\<close> on an
  empty answer) turned into \<open>None\<close>.
\<close>

definition embedding_of :: "env \<Rightarrow> nat \<Rightarrow> ustr \<Rightarrow> vec option" where
  "embedding_of e k text =
     (case embeddings_create e k (Single (truncate_input text)) of
        Inl ex \<Rightarrow> None
      | Inr [] \<Rightarrow> None
      | Inr (v # _) \<Rightarrow> Some v)"

definition create_embedding :: "env \<Rightarrow> ustr \<Rightarrow> world \<Rightarrow> vec option \<times> world" where
  "create_embedding e text w =
     (embedding_of e (length (embed_log w)) text,
      w\<lparr>embed_log := embed_log w @ [Single (truncate_input text)]\<rparr>)"

definition create_embeddings_batch :: "env \<Rightarrow> ustr list \<Rightarrow> world \<Rightarrow> vec option list \<times> world" where
  "create_embeddings_batch e texts w =
     (let processed_texts = map truncate_input texts
      in (case embeddings_create e (length (embed_log w)) (Batch processed_texts) of
            Inl ex \<Rightarrow> replicate (length texts) None
          | Inr data \<Rightarrow> map Some data,
          w\<lparr>embed_log := embed_log w @ [Batch processed_texts]\<rparr>))"

section \<open>The ingestion pipeline (document\_uploader.py)\<close>

text \<open>
  The dictionary a \<open>process_*\<close> method returns: \<open>{'success': False, 'error': m}\<close> or
  \<open>{'success': True, 'document_id': .., 'filename': .., 'chunks_created': ..,
  'total_text_length': ..}\<close>.
\<close>

datatype upload_result =
  Failure ustr
| Success (document_id: nat) (res_filename: ustr) (chunks_created: nat) (total_text_length: nat)

text \<open>
  The loop of \<open>_process_and_save\<close> over \<open>enumerate(chunks)\<close>, with its two counters. An
  exception of \<open>add_chunk\<close> leaves the loop (and is caught by the caller);
  \<open>create_embedding\<close> never raises.
\<close>

fun save_chunks ::
  "env \<Rightarrow> nat \<Rightarrow> ustr \<Rightarrow> int \<Rightarrow> nat \<Rightarrow> (nat \<times> ustr) list \<Rightarrow> nat \<Rightarrow> nat \<Rightarrow> world
     \<Rightarrow> (exn + nat \<times> nat) \<times> world" where
  "save_chunks e doc filename user_id n_total [] processed_chunks failed_chunks w =
     (Inr (processed_chunks, failed_chunks), w)"
| "save_chunks e doc filename user_id n_total ((i, chunk_text) # rest) processed_chunks failed_chunks w =
     (case create_embedding e chunk_text w of
        (None, w1) \<Rightarrow>
          save_chunks e doc filename user_id n_total rest processed_chunks (Suc failed_chunks) w1
      | (Some embedding, w1) \<Rightarrow>
          (case add_chunk e doc i chunk_text embedding
                  \<lparr>meta_filename = filename, meta_chunk_index = i,
                   meta_total_chunks = n_total, meta_uploaded_by = user_id\<rparr> w1 of
             (Inl ex, w2) \<Rightarrow> (Inl ex, w2)
           | (Inr u, w2) \<Rightarrow>
               save_chunks e doc filename user_id n_total rest (Suc processed_chunks) failed_chunks w2))"

definition process_and_save :: "env \<Rightarrow> ustr \<Rightarrow> ustr \<Rightarrow> ustr \<Rightarrow> int \<Rightarrow> world \<Rightarrow> upload_result \<times> world" where
  "process_and_save e text filename file_hash user_id w =
     (let chunks = split_text e text;
          w0 = w\<lparr>split_calls := Suc (split_calls w)\<rparr>
      in if chunks = [] then (Failure msg_split_failed, w0)
         else
           (case add_document e filename file_hash user_id w0 of
              (Inl ex, w1) \<Rightarrow> (Failure (str_of ex), w1)
            | (Inr doc, w1) \<Rightarrow>
                (case save_chunks e doc filename user_id (length chunks)
                        (enumerate_py chunks) 0 0 w1 of
                   (Inl ex, w2) \<Rightarrow> (Failure (str_of ex), w2)
                 | (Inr (processed_chunks, failed_chunks), w2) \<Rightarrow>
                     (case update_total_chunks e processed_chunks doc w2 of
                        (Inl ex, w3) \<Rightarrow> (Failure (str_of ex), w3)
                      | (Inr u, w3) \<Rightarrow>
                          (Success doc filename processed_chunks (length text), w3)))))"

text \<open>
  The duplicate check the three \<open>process_*\<close> methods share: \<open>fetchval\<close> of the id, then
  \<open>if existing:\<close>, which is Python truthiness (\<open>None\<close> and \<open>0\<close> are false).
\<close>

definition truthy_id :: "nat option \<Rightarrow> bool" where
  "truthy_id existing = (case existing of None \<Rightarrow> False | Some i \<Rightarrow> i \<noteq> 0)"

text \<open>\<open>not text or len(text.strip()) < 10\<close>.\<close>

definition too_short :: "ustr \<Rightarrow> bool" where
  "too_short text \<longleftrightarrow> text = [] \<or> length (strip text) < 10"

definition remove_nul :: "ustr \<Rightarrow> ustr" where
  "remove_nul text = filter (\<lambda>c. c \<noteq> 0) text"

text \<open>
  \<open>_extract_pdf_text\<close>: the pages whose text is not blank, joined by a blank line, NUL
  removed; any exception gives the empty string.
\<close>

definition extract_pdf_text :: "env \<Rightarrow> bytes \<Rightarrow> world \<Rightarrow> ustr \<times> world" where
  "extract_pdf_text e file_bytes w =
     (case pdf_pages e file_bytes of
        Inl ex \<Rightarrow> []
      | Inr pages \<Rightarrow>
          remove_nul (join [10, 10] (filter (\<lambda>t. t \<noteq> [] \<and> strip t \<noteq> []) pages)),
      w\<lparr>extract_calls := Suc (extract_calls w)\<rparr>)"

text \<open>
  \<open>_extract_docx_text\<close>: the non-blank paragraphs, then one line per table row with its
  non-blank cells stripped and joined by \<open>" | "\<close>.
\<close>

definition extract_docx_text :: "env \<Rightarrow> bytes \<Rightarrow> world \<Rightarrow> ustr \<times> world" where
  "extract_docx_text e file_bytes w =
     (case docx_parts e file_bytes of
        Inl ex \<Rightarrow> []
      | Inr (paragraphs, tables) \<Rightarrow>
          remove_nul
            (join [10, 10]
               (filter (\<lambda>t. t \<noteq> [] \<and> strip t \<noteq> []) paragraphs @
                map (join (asc '' | ''))
                  (filter (\<lambda>row_text. row_text \<noteq> [])
                     (map (\<lambda>row. map strip (filter (\<lambda>t. t \<noteq> [] \<and> strip t \<noteq> []) row))
                        (concat tables))))),
      w\<lparr>extract_calls := Suc (extract_calls w)\<rparr>)"

text \<open>
  The decoding loop of \<open>process_text\<close>: utf-8, then cp1251, then latin-1, which maps
  every byte to the code point of the same number and so never fails.
\<close>

definition decode_text :: "env \<Rightarrow> bytes \<Rightarrow> world \<Rightarrow> ustr option \<times> world" where
  "decode_text e file_bytes w =
     (case decode_utf8 e file_bytes of
        Some t \<Rightarrow> Some t
      | None \<Rightarrow>
          (case decode_cp1251 e file_bytes of
             Some t \<Rightarrow> Some t
           | None \<Rightarrow> Some (map unat file_bytes)),
      w\<lparr>extract_calls := Suc (extract_calls w)\<rparr>)"

definition process_pdf :: "env \<Rightarrow> bytes \<Rightarrow> ustr \<Rightarrow> int \<Rightarrow> world \<Rightarrow> upload_result \<times> world" where
  "process_pdf e file_bytes filename user_id w =
     (let file_hash = md5_hexdigest e file_bytes
      in case select_id_by_hash e file_hash w of
           (Inl ex, w1) \<Rightarrow> (Failure (str_of ex), w1)
         | (Inr existing, w1) \<Rightarrow>
             if truthy_id existing then (Failure msg_already_uploaded, w1)
             else
               (case extract_pdf_text e file_bytes w1 of
                  (text, w2) \<Rightarrow>
                    if too_short text then (Failure msg_pdf_unreadable, w2)
                    else process_and_save e text filename file_hash user_id w2))"

definition process_text :: "env \<Rightarrow> bytes \<Rightarrow> ustr \<Rightarrow> int \<Rightarrow> world \<Rightarrow> upload_result \<times> world" where
  "process_text e file_bytes filename user_id w =
     (let file_hash = md5_hexdigest e file_bytes
      in case select_id_by_hash e file_hash w of
           (Inl ex, w1) \<Rightarrow> (Failure (str_of ex), w1)
         | (Inr existing, w1) \<Rightarrow>
             if truthy_id existing then (Failure msg_already_uploaded, w1)
             else
               (case decode_text e file_bytes w1 of
                  (decoded, w2) \<Rightarrow>
                    (let text = (case decoded of
                                   None \<Rightarrow> None
                                 | Some t \<Rightarrow> if t \<noteq> [] then Some (remove_nul t) else Some t)
                     in case text of
                          None \<Rightarrow> (Failure msg_text_unreadable, w2)
                        | Some t \<Rightarrow>
                            if too_short t then (Failure msg_text_unreadable, w2)
                            else process_and_save e t filename file_hash user_id w2)))"

definition process_docx :: "env \<Rightarrow> bytes \<Rightarrow> ustr \<Rightarrow> int \<Rightarrow> world \<Rightarrow> upload_result \<times> world" where
  "process_docx e file_bytes filename user_id w =
     (let file_hash = md5_hexdigest e file_bytes
      in case select_id_by_hash e file_hash w of
           (Inl ex, w1) \<Rightarrow> (Failure (str_of ex), w1)
         | (Inr existing, w1) \<Rightarrow>
             if truthy_id existing then (Failure msg_already_uploaded, w1)
             else
               (case extract_docx_text e file_bytes w1 of
                  (text, w2) \<Rightarrow>
                    if too_short text then (Failure msg_docx_unreadable, w2)
                    else process_and_save e text filename file_hash user_id w2))"

text \<open>
  \<open>filename.lower().split('.')[-1] if '.' in filename else ''\<close>: what follows the last
  dot of the lowered name.
\<close>

definition file_ext :: "env \<Rightarrow> ustr \<Rightarrow> ustr" where
  "file_ext e filename =
     (if 46 \<in> set filename then rev (takeWhile (\<lambda>c. c \<noteq> 46) (rev (lower e filename))) else [])"

definition process_file :: "env \<Rightarrow> bytes \<Rightarrow> ustr \<Rightarrow> int \<Rightarrow> world \<Rightarrow> upload_result \<times> world" where
  "process_file e file_bytes filename user_id w =
     (let ext = file_ext e filename
      in if ext = asc ''pdf'' then process_pdf e file_bytes filename user_id w
         else if ext \<in> set [asc ''txt'', asc ''md'', asc ''text''] then
           process_text e file_bytes filename user_id w
         else if ext \<in> set [asc ''docx'', asc ''doc''] then
           process_docx e file_bytes filename user_id w
         else (Failure (msg_unsupported ext), w))"


fun chunk_rows ::
  "nat \<Rightarrow> nat \<Rightarrow> ustr \<Rightarrow> int \<Rightarrow> nat \<Rightarrow> (nat \<times> ustr \<times> vec) list \<Rightarrow> chunk_row list" where
  "chunk_rows seq doc filename user_id n_total [] = []"
| "chunk_rows seq doc filename user_id n_total ((i, c, v) # xs) =
     \<lparr>chunk_id = Suc seq, chunk_document_id = doc, chunk_index = i, chunk_content = c,
      chunk_embedding = v,
      chunk_metadata = \<lparr>meta_filename = filename, meta_chunk_index = i,
                        meta_total_chunks = n_total, meta_uploaded_by = user_id\<rparr>\<rparr>
     # chunk_rows (Suc seq) doc filename user_id n_total xs"

section \<open>The generation backend (ai\_service.py)\<close>







section \<open>The retrieval engine (rag\_engine.py)\<close>











text \<open>The dictionary \<open>process_query\<close> returns when it does not return \<open>None\<close>.\<close>

record rag_answer =
  success :: bool
  response :: ustr
  rag_used :: bool
  chunks_used :: nat
  response_time_ms :: int
  chunks :: "search_hit list"




section \<open>Start-up (rag\_system.py)\<close>

record settings =
  RAG_ENABLED :: bool
  POSTGRES_PORT_RAG :: ustr
  OPENAI_API_KEY :: ustr

text \<open>\<open>RAGDatabase.connect\<close>: the pool is created and the tables are, or it raises.\<close>

definition connect :: "env \<Rightarrow> world \<Rightarrow> (exn + unit) \<times> world" where
  "connect e w =
     (case connect_fault e (connect_attempts w) of
        Some m \<Rightarrow> (Inl (Error m), w\<lparr>connect_attempts := Suc (connect_attempts w)\<rparr>)
      | None \<Rightarrow> (Inr (), w\<lparr>connect_attempts := Suc (connect_attempts w), pool_open := True\<rparr>))"

text \<open>
  The loop \<open>for attempt in range(max_retries)\<close>: \<open>break\<close> on success; on failure sleep
  \<open>retry_delay * 2 ** attempt\<close> seconds and go on, except at the last attempt, which
  re-raises.
\<close>

fun connect_retry :: "env \<Rightarrow> nat \<Rightarrow> nat \<Rightarrow> nat list \<Rightarrow> world \<Rightarrow> (exn + unit) \<times> world" where
  "connect_retry e max_retries retry_delay [] w = (Inr (), w)"
| "connect_retry e max_retries retry_delay (attempt # rest) w =
     (case connect e w of
        (Inr u, w1) \<Rightarrow> (Inr (), w1)
      | (Inl ex, w1) \<Rightarrow>
          if attempt < max_retries - 1 then
            connect_retry e max_retries retry_delay rest
              (w1\<lparr>sleeps := sleeps w1 @ [retry_delay * 2 ^ attempt]\<rparr>)
          else (Inl ex, w1))"

text \<open>
  \<open>get_stats\<close> sends up to four counting queries and catches its own exceptions; start-up
  only logs what it returns, so only the statements are kept here.
\<close>

fun count_queries :: "env \<Rightarrow> nat \<Rightarrow> world \<Rightarrow> world" where
  "count_queries e 0 w = w"
| "count_queries e (Suc n) w =
     (case store_stmt e w of
        (Some m, w1) \<Rightarrow> w1
      | (None, w1) \<Rightarrow> count_queries e n w1)"

definition get_stats :: "env \<Rightarrow> world \<Rightarrow> world" where
  "get_stats e w = count_queries e 4 w"

text \<open>The body of the outer \<open>try\<close> of \<open>init_rag_system\<close>, then the function with its handler.\<close>

definition init_rag_system_try :: "settings \<Rightarrow> env \<Rightarrow> world \<Rightarrow> (exn + bool) \<times> world" where
  "init_rag_system_try s e w =
     (if \<not> RAG_ENABLED s then (Inr False, w)
      else if POSTGRES_PORT_RAG s = [] then (Inr False, w)
      else
        (let max_retries = 5; retry_delay = 2
         in case connect_retry e max_retries retry_delay [0..<max_retries] w of
              (Inl ex, w1) \<Rightarrow> (Inl ex, w1)
            | (Inr u, w1) \<Rightarrow> (Inr True, (get_stats e w1)\<lparr>engine_ready := True\<rparr>)))"

definition init_rag_system :: "settings \<Rightarrow> env \<Rightarrow> world \<Rightarrow> (exn + bool) \<times> world" where
  "init_rag_system s e w =
     (case init_rag_system_try s e w of
        (Inl ex, w1) \<Rightarrow> (Inr False, w1)
      | (Inr b, w1) \<Rightarrow> (Inr b, w1))"

section \<open>A concrete environment\<close>

text \<open>
  One environment and one state to run the functions on: a store that never fails, an
  embedding provider that refuses every second request (the odd-numbered ones), a splitter
  that makes one chunk per character, a digest and decoders that read the bytes as
  code points, and a chat provider that answers \<open>ok\<close>.
\<close>

definition stub_env :: env where
  "stub_env =
     \<lparr>md5_hexdigest = map unat,
      store_fault = (\<lambda>k. None),
      unique_violation_text = asc ''duplicate key value violates unique constraint'',
      connect_fault = (\<lambda>k. None),
      embeddings_create =
        (\<lambda>k inp. if odd k then Inl (Error (asc ''rate limit''))
                  else (case inp of Single t \<Rightarrow> Inr [[1]] | Batch ts \<Rightarrow> Inr (map (\<lambda>t. [1]) ts))),
      chat_completions_create =
        (\<lambda>k ms. Inr \<lparr>choices = [Some (asc ''ok'')], usage_total_tokens = Some 1\<rparr>),
      decode_utf8 = (\<lambda>b. Some (map unat b)),
      decode_cp1251 = (\<lambda>b. None),
      pdf_pages = (\<lambda>b. Inr [map unat b]),
      docx_parts = (\<lambda>b. Inr ([map unat b], [])),
      split_text = map (\<lambda>c. [c]),
      lower = map (\<lambda>c. if 65 \<le> c \<and> c \<le> 90 then c + 32 else c),
      cosine_distance = (\<lambda>u v. 0),
      format_2f = (\<lambda>x. asc ''1.00''),
      str_nat = (\<lambda>n. asc ''1''),
      now_us = (\<lambda>k. int k * 250000)\<rparr>"

definition empty_world :: world where
  "empty_world =
     \<lparr>rag_documents = [], rag_chunks = [], rag_usage_stats = [],
      documents_seq = 0, chunks_seq = 0, usage_seq = 0, db_ops = 0,
      embed_log = [], chat_log = [], extract_calls = 0, split_calls = 0,
      clock_reads = 0, connect_attempts = 0, sleeps = [],
      pool_open = False, engine_ready = False\<rparr>"





section \<open>What an ingestion leaves in the store\<close>





lemma chunk_rows_triples:
  "map (\<lambda>c. (chunk_document_id c, chunk_index c, chunk_content c)) (chunk_rows seq doc fn uid n E)
     = map (\<lambda>(i, c, v). (doc, i, c)) E"
  by (induction seq doc fn uid n E rule: chunk_rows.induct) simp_all

lemma chunk_rows_meta:
  "c \<in> set (chunk_rows seq doc fn uid n E) \<Longrightarrow> meta_total_chunks (chunk_metadata c) = n"
  by (induction seq doc fn uid n E rule: chunk_rows.induct) auto
















lemma save_chunks_documents:
  "rag_documents (snd (save_chunks e doc fn uid n xs p f w)) = rag_documents w"
proof (induction xs arbitrary: p f w)
  case Nil
  then show ?case by simp
next
  case (Cons x xs)
  obtain i c where x: "x = (i, c)" by (cases x)
  show ?case
    by (simp add: x create_embedding_def add_chunk_def store_stmt_def Cons
          split: option.splits)
qed

lemma update_keeps_ids:
  "map doc_id (filter (\<lambda>r. doc_file_hash r = h)
     (map (\<lambda>d. if doc_id d = doc then d\<lparr>doc_total_chunks := n\<rparr> else d) ds)) =
   map doc_id (filter (\<lambda>r. doc_file_hash r = h) ds)"
  by (induction ds) auto

lemma filter_absent_hash:
  "h \<notin> set (map doc_file_hash ds) \<Longrightarrow> filter (\<lambda>r. doc_file_hash r = h) ds = []"
  by (induction ds) auto

lemma process_and_save_success:
  assumes "process_and_save e text fn h uid w = (Success d f n l, w')"
  shows "map doc_id (filter (\<lambda>r. doc_file_hash r = h) (rag_documents w')) = [d] \<and> d \<noteq> 0"
proof -
  let ?w0 = "w\<lparr>split_calls := Suc (split_calls w)\<rparr>"
  from assms obtain w1 where
    add: "add_document e fn h uid ?w0 = (Inr d, w1)"
    by (auto simp: process_and_save_def Let_def
          split: if_splits prod.splits sum.splits)
  from add have fresh: "h \<notin> set (map doc_file_hash (rag_documents w))"
    and d: "d = Suc (documents_seq w)"
    and docs1: "rag_documents w1 = rag_documents w @
         [\<lparr>doc_id = d, doc_filename = fn, doc_file_hash = h,
           doc_uploaded_by = uid, doc_total_chunks = 0\<rparr>]"
    by (auto simp: add_document_def store_stmt_def Let_def split: option.splits if_splits)
  let ?sc = "save_chunks e d fn uid (length (split_text e text))
               (enumerate_py (split_text e text)) 0 0 w1"
  from assms add obtain p where
    upd: "update_total_chunks e p d (snd ?sc) = (Inr (), w')"
    by (auto simp: process_and_save_def Let_def
          split: if_splits prod.splits sum.splits)
  from upd have "rag_documents w' =
      map (\<lambda>r. if doc_id r = d then r\<lparr>doc_total_chunks := p\<rparr> else r) (rag_documents (snd ?sc))"
    by (auto simp: update_total_chunks_def store_stmt_def split: option.splits)
  then show ?thesis
    using fresh d
    by (simp add: save_chunks_documents docs1 update_keeps_ids filter_absent_hash)
qed


lemma process_file_success:
  assumes "process_file e b fn uid w = (Success d f n l, w')"
  shows "map doc_id (filter (\<lambda>r. doc_file_hash r = md5_hexdigest e b) (rag_documents w')) = [d]
         \<and> d \<noteq> 0"
proof -
  have a1: "process_pdf e b fn uid w = (Success d f n l, w') \<Longrightarrow> ?thesis"
    by (auto simp: process_pdf_def Let_def split: prod.splits sum.splits if_splits
          dest!: process_and_save_success)
  have a2: "process_text e b fn uid w = (Success d f n l, w') \<Longrightarrow> ?thesis"
    by (auto simp: process_text_def Let_def split: prod.splits sum.splits if_splits option.splits
          dest!: process_and_save_success)
  have a3: "process_docx e b fn uid w = (Success d f n l, w') \<Longrightarrow> ?thesis"
    by (auto simp: process_docx_def Let_def split: prod.splits sum.splits if_splits
          dest!: process_and_save_success)
  from assms a1 a2 a3 show ?thesis
    by (auto simp: process_file_def Let_def split: if_splits)
qed

lemma duplicate_check_rejects:
  assumes "store_fault e (db_ops w) = None"
      and "map doc_id (filter (\<lambda>r. doc_file_hash r = md5_hexdigest e b) (rag_documents w)) = [d]"
      and "d \<noteq> 0"
  shows "process_pdf e b fn uid w = (Failure msg_already_uploaded, w\<lparr>db_ops := Suc (db_ops w)\<rparr>)"
    and "process_text e b fn uid w = (Failure msg_already_uploaded, w\<lparr>db_ops := Suc (db_ops w)\<rparr>)"
    and "process_docx e b fn uid w = (Failure msg_already_uploaded, w\<lparr>db_ops := Suc (db_ops w)\<rparr>)"
proof -
  from assms(2) obtain r where
    "filter (\<lambda>r. doc_file_hash r = md5_hexdigest e b) (rag_documents w) = [r]" "doc_id r = d"
    by auto
  then have sel: "select_id_by_hash e (md5_hexdigest e b) w =
      (Inr (Some d), w\<lparr>db_ops := Suc (db_ops w)\<rparr>)"
    using assms(1) by (simp add: select_id_by_hash_def store_stmt_def)
  show "process_pdf e b fn uid w = (Failure msg_already_uploaded, w\<lparr>db_ops := Suc (db_ops w)\<rparr>)"
    using assms(3) by (simp add: process_pdf_def sel truthy_id_def)
  show "process_text e b fn uid w = (Failure msg_already_uploaded, w\<lparr>db_ops := Suc (db_ops w)\<rparr>)"
    using assms(3) by (simp add: process_text_def sel truthy_id_def)
  show "process_docx e b fn uid w = (Failure msg_already_uploaded, w\<lparr>db_ops := Suc (db_ops w)\<rparr>)"
    using assms(3) by (simp add: process_docx_def sel truthy_id_def)
qed

section \<open>Duplicate uploads and the minimum-content floor\<close>

text \<open>
  Claim C2, amended. When a first \<open>process_file\<close> call has succeeded, a second call
  with the same bytes, a file name of a supported kind and a duplicate check that
  reaches the store is rejected as already uploaded; the state changes by the one counted
  statement only, so nothing is extracted, split, embedded or inserted.
\<close>

theorem second_upload_is_rejected_as_duplicate:
  assumes "process_file e file_bytes filename1 user1 w = (Success d f n l, w1)"
      and "file_ext e filename2 \<in>
             set [asc ''pdf'', asc ''txt'', asc ''md'', asc ''text'', asc ''docx'', asc ''doc'']"
      and "store_fault e (db_ops w1) = None"
  shows "process_file e file_bytes filename2 user2 w1 =
           (Failure msg_already_uploaded, w1\<lparr>db_ops := Suc (db_ops w1)\<rparr>)"
proof -
  from process_file_success[OF assms(1)] have
    row: "map doc_id (filter (\<lambda>r. doc_file_hash r = md5_hexdigest e file_bytes)
            (rag_documents w1)) = [d]" and d: "d \<noteq> 0"
    by simp_all
  note dup = duplicate_check_rejects[OF assms(3) row d]
  from assms(2) show ?thesis
    by (auto simp: process_file_def Let_def dup)
qed

lemma first_upload:
  "fst (process_file stub_env [48, 49, 50, 51, 52, 53, 54, 55, 56, 57] (asc ''a.txt'') 7 empty_world) =
     Success 1 (asc ''a.txt'') 5 10"
  by (simp add: process_file_def file_ext_def process_text_def select_id_by_hash_def
        store_stmt_def decode_text_def truthy_id_def too_short_def strip_def isspace_def
        remove_nul_def process_and_save_def add_document_def enumerate_py_def
        create_embedding_def embedding_of_def truncate_input_def add_chunk_def
        update_total_chunks_def asc_def stub_env_def empty_world_def Let_def
        upt_conv_Cons del: upt_Suc)

theorem second_upload_is_rejected_as_duplicate_witness:
  "process_file stub_env [48, 49, 50, 51, 52, 53, 54, 55, 56, 57] (asc ''a.txt'') 7 empty_world =
     (Success 1 (asc ''a.txt'') 5 10,
      snd (process_file stub_env [48, 49, 50, 51, 52, 53, 54, 55, 56, 57] (asc ''a.txt'') 7
             empty_world)) \<and>
   file_ext stub_env (asc ''b.md'') \<in>
     set [asc ''pdf'', asc ''txt'', asc ''md'', asc ''text'', asc ''docx'', asc ''doc''] \<and>
   store_fault stub_env
     (db_ops (snd (process_file stub_env [48, 49, 50, 51, 52, 53, 54, 55, 56, 57] (asc ''a.txt'') 7
                     empty_world))) = None \<and>
   fst (process_file stub_env [48, 49, 50, 51, 52, 53, 54, 55, 56, 57] (asc ''b.md'') 8
          (snd (process_file stub_env [48, 49, 50, 51, 52, 53, 54, 55, 56, 57] (asc ''a.txt'') 7
                  empty_world))) = Failure msg_already_uploaded"
proof -
  have first: "process_file stub_env [48, 49, 50, 51, 52, 53, 54, 55, 56, 57] (asc ''a.txt'') 7
        empty_world =
     (Success 1 (asc ''a.txt'') 5 10,
      snd (process_file stub_env [48, 49, 50, 51, 52, 53, 54, 55, 56, 57] (asc ''a.txt'') 7
             empty_world))"
    by (simp add: prod_eq_iff first_upload)
  have ext: "file_ext stub_env (asc ''b.md'') \<in>
     set [asc ''pdf'', asc ''txt'', asc ''md'', asc ''text'', asc ''docx'', asc ''doc'']"
    by (simp add: file_ext_def stub_env_def asc_def)
  have ok: "store_fault stub_env k = None" for k
    by (simp add: stub_env_def)
  have second: "fst (process_file stub_env [48, 49, 50, 51, 52, 53, 54, 55, 56, 57] (asc ''b.md'') 8
          (snd (process_file stub_env [48, 49, 50, 51, 52, 53, 54, 55, 56, 57] (asc ''a.txt'') 7
                  empty_world))) = Failure msg_already_uploaded"
    by (simp add: second_upload_is_rejected_as_duplicate[OF first ext ok])
  show ?thesis
    by (intro conjI) (rule first, rule ext, rule ok, rule second)
qed

lemma short_upload:
  assumes "rag_documents w = []"
  shows "process_file stub_env [104, 105] (asc ''a.txt'') 7 w =
     (Failure msg_text_unreadable,
      w\<lparr>db_ops := Suc (db_ops w), extract_calls := Suc (extract_calls w)\<rparr>)"
  using assms
  by (simp add: process_file_def file_ext_def process_text_def select_id_by_hash_def
        store_stmt_def decode_text_def truthy_id_def too_short_def strip_def isspace_def
        remove_nul_def asc_def stub_env_def Let_def)

text \<open>
  Claim C2 as stated fails: the file kind is dispatched on before the digest is looked
  up, so a second upload of the same bytes under the name \<open>a.exe\<close> is rejected as
  unsupported; and when the first upload was itself rejected (two characters of text),
  no document exists and the second upload is rejected for the same reason as the first.
\<close>

theorem second_upload_not_always_duplicate:
  "fst (process_file stub_env [48, 49, 50, 51, 52, 53, 54, 55, 56, 57] (asc ''a.txt'') 7
          empty_world) = Success 1 (asc ''a.txt'') 5 10 \<and>
   fst (process_file stub_env [48, 49, 50, 51, 52, 53, 54, 55, 56, 57] (asc ''a.exe'') 7
          (snd (process_file stub_env [48, 49, 50, 51, 52, 53, 54, 55, 56, 57] (asc ''a.txt'') 7
                  empty_world))) = Failure (msg_unsupported (asc ''exe'')) \<and>
   msg_unsupported (asc ''exe'') \<noteq> msg_already_uploaded \<and>
   fst (process_file stub_env [104, 105] (asc ''a.txt'') 7 empty_world) =
     Failure msg_text_unreadable \<and>
   fst (process_file stub_env [104, 105] (asc ''a.txt'') 7
          (snd (process_file stub_env [104, 105] (asc ''a.txt'') 7 empty_world))) =
     Failure msg_text_unreadable \<and>
   msg_text_unreadable \<noteq> msg_already_uploaded"
proof -
  have a: "fst (process_file stub_env b (asc ''a.exe'') 7 w) = Failure (msg_unsupported (asc ''exe''))"
    for b w
    by (simp add: process_file_def file_ext_def stub_env_def asc_def)
  have b: "msg_unsupported (asc ''exe'') \<noteq> msg_already_uploaded"
    by (simp add: msg_unsupported_def msg_already_uploaded_def)
  have w0: "rag_documents empty_world = []"
    by (simp add: empty_world_def)
  have e: "msg_text_unreadable \<noteq> msg_already_uploaded"
    by (simp add: msg_text_unreadable_def msg_already_uploaded_def)
  show ?thesis
    by (simp add: first_upload a b e short_upload w0)
qed







section \<open>Queries\<close>























end
